theory Spec2Isabelle
  imports Complex_Main
begin

section \<open>JavaScript values\<close>

text \<open>
  The action in \<^verbatim>\<open>actions/transfer.ts\<close> works on a content object that the language
  model produced as JSON, so its fields can hold any JSON value. A Number is an IEEE-754
  double: not-a-number, one of the two infinities, or a finite value, kept here as the
  rational it denotes (the two zeros are one value: nothing in the action tells them
  apart). A string is a list of code units, restricted to the code units below 256.
\<close>

datatype number = NaN | PInf | NInf | Fin rat

datatype jsval =
    JUndefined
  | JNull
  | JBool bool
  | JNum number
  | JStr string
  | JObject

datatype error = TypeError | SyntaxError | Thrown string

text \<open>\<^verbatim>\<open>typeof v === "string"\<close> and \<^verbatim>\<open>typeof v === "number"\<close>.\<close>

fun is_string :: "jsval \<Rightarrow> bool" where
  "is_string (JStr s) = True"
| "is_string v = False"

fun is_number :: "jsval \<Rightarrow> bool" where
  "is_number (JNum x) = True"
| "is_number v = False"

text \<open>The truthiness of a value, as \<^verbatim>\<open>if (v)\<close> and \<^verbatim>\<open>!v\<close> read it.\<close>

fun truthy :: "jsval \<Rightarrow> bool" where
  "truthy JUndefined = False"
| "truthy JNull = False"
| "truthy (JBool b) = b"
| "truthy (JNum x) = (x \<noteq> NaN \<and> x \<noteq> Fin 0)"
| "truthy (JStr s) = (s \<noteq> [])"
| "truthy JObject = True"

text \<open>\<^verbatim>\<open>v === undefined || v === null\<close>, the test behind \<^verbatim>\<open>??\<close>.\<close>

fun nullish :: "jsval \<Rightarrow> bool" where
  "nullish JUndefined = True"
| "nullish JNull = True"
| "nullish v = False"

definition startsWith :: "string \<Rightarrow> string \<Rightarrow> bool" where
  "startsWith s p = (take (length p) s = p)"

section \<open>Numbers\<close>

definition pow2 :: "int \<Rightarrow> rat" where
  "pow2 k = (if 0 \<le> k then 2 ^ nat k else 1 / 2 ^ nat (- k))"

definition pow10 :: "int \<Rightarrow> rat" where
  "pow10 k = (if 0 \<le> k then 10 ^ nat k else 1 / 10 ^ nat (- k))"

text \<open>The number of digits of a positive integer in base \<open>b\<close> (0 for \<open>n \<le> 0\<close>).\<close>

function digit_count :: "int \<Rightarrow> int \<Rightarrow> int" where
  "digit_count b n = (if n \<le> 0 \<or> b \<le> 1 then 0 else 1 + digit_count b (n div b))"
  by pat_completeness auto
termination
  by (relation "measure (\<lambda>(b, n). nat n)") (auto simp: int_div_less_self)

text \<open>
  \<open>magnitude b a d\<close> is the integer \<open>n\<close> with \<open>b ^ (n - 1) \<le> a / d < b ^ n\<close>, for positive
  \<open>a\<close> and \<open>d\<close>: one more than the floor of the logarithm of \<open>a / d\<close> in base \<open>b\<close>.
\<close>

definition magnitude :: "int \<Rightarrow> int \<Rightarrow> int \<Rightarrow> int" where
  "magnitude b a d =
     (let k = digit_count b a - digit_count b d
      in if (if 0 \<le> k then d * b ^ nat k \<le> a else d \<le> a * b ^ nat (- k)) then k + 1 else k)"

text \<open>Rounding the fraction \<open>n / d\<close> (\<open>d\<close> positive) to the nearest integer, ties to even.\<close>

definition round_half_even :: "int \<Rightarrow> int \<Rightarrow> int" where
  "round_half_even n d =
     (let f = n div d; r = 2 * (n mod d)
      in if r < d then f
         else if d < r then f + 1
         else if even f then f else f + 1)"

text \<open>
  The double nearest to the positive fraction \<open>a / b\<close>: 53 significant bits, the smallest
  unit \<open>2 ^ - 1074\<close> (subnormal numbers), ties to even, and infinity from
  \<open>2 ^ 1024 - 2 ^ 970\<close> on.
\<close>

definition round_ratio :: "int \<Rightarrow> int \<Rightarrow> number" where
  "round_ratio a b =
     (let e = max (magnitude 2 a b - 1) (- 1022) - 52;
          m = (if 0 \<le> e then round_half_even a (b * 2 ^ nat e)
               else round_half_even (a * 2 ^ nat (- e)) b)
      in if 971 < e \<or> (e = 971 \<and> 2 ^ 53 \<le> m) then PInf
         else Fin (of_int m * pow2 e))"

definition negate :: "number \<Rightarrow> number" where
  "negate x = (case x of NaN \<Rightarrow> NaN | PInf \<Rightarrow> NInf | NInf \<Rightarrow> PInf | Fin q \<Rightarrow> Fin (- q))"

definition round_double :: "rat \<Rightarrow> number" where
  "round_double q =
     (let (a, b) = quotient_of q
      in if a = 0 then Fin 0
         else if 0 < a then round_ratio a b
         else negate (round_ratio (- a) b))"

text \<open>The sign of a number that is not NaN.\<close>

definition sign_of :: "number \<Rightarrow> int" where
  "sign_of x =
     (case x of
        PInf \<Rightarrow> 1
      | NInf \<Rightarrow> - 1
      | Fin q \<Rightarrow> (if 0 < q then 1 else if q < 0 then - 1 else 0)
      | NaN \<Rightarrow> 0)"

text \<open>
  The product of two Numbers (\<^verbatim>\<open>x * y\<close>): NaN if an operand is NaN or if an infinity
  meets a zero, an infinity of the product's sign if an operand is infinite, and the
  rounded exact product otherwise.
\<close>

definition number_times :: "number \<Rightarrow> number \<Rightarrow> number" where
  "number_times x y =
     (if x = NaN \<or> y = NaN then NaN
      else case (x, y) of
          (Fin a, Fin b) \<Rightarrow> round_double (a * b)
        | _ \<Rightarrow>
           (let s = sign_of x * sign_of y
            in if s = 0 then NaN else if 0 < s then PInf else NInf))"

text \<open>
  \<^verbatim>\<open>Math.pow(10, d)\<close> for a non-negative integer \<open>d\<close>. The language leaves the precision of
  \<^verbatim>\<open>Math.pow\<close> to the engine. Up to \<open>d = 22\<close> the power \<open>10 ^ d\<close> is itself a double, and
  that is the result; beyond, the result is whatever the engine at hand computes, which is
  a parameter. \<open>nearest_pow10\<close> is an engine that rounds correctly.
\<close>

definition Math_pow10 :: "(nat \<Rightarrow> number) \<Rightarrow> nat \<Rightarrow> number" where
  "Math_pow10 engine d = (if d \<le> 22 then Fin (10 ^ d) else engine d)"

definition nearest_pow10 :: "nat \<Rightarrow> number" where
  "nearest_pow10 d = round_ratio (10 ^ d) 1"

definition Math_floor :: "number \<Rightarrow> number" where
  "Math_floor x = (case x of Fin q \<Rightarrow> Fin (of_int \<lfloor>q\<rfloor>) | _ \<Rightarrow> x)"

section \<open>Strings and numbers\<close>

definition char_code :: "char \<Rightarrow> int" where
  "char_code ch = of_char ch"

definition is_digit :: "char \<Rightarrow> bool" where
  "is_digit ch = (48 \<le> char_code ch \<and> char_code ch \<le> 57)"

text \<open>The value of a digit in a radix up to 16; \<open>- 1\<close> if the character is no digit of it.\<close>

definition digit_value :: "int \<Rightarrow> char \<Rightarrow> int" where
  "digit_value radix ch =
     (let n = char_code ch;
          v = (if 48 \<le> n \<and> n \<le> 57 then n - 48
               else if 97 \<le> n \<and> n \<le> 102 then n - 87
               else if 65 \<le> n \<and> n \<le> 70 then n - 55
               else - 1)
      in if v < radix then v else - 1)"

definition is_radix_digit :: "int \<Rightarrow> char \<Rightarrow> bool" where
  "is_radix_digit radix ch = (0 \<le> digit_value radix ch)"

definition digits_value :: "int \<Rightarrow> string \<Rightarrow> int" where
  "digits_value radix s = foldl (\<lambda>acc ch. acc * radix + digit_value radix ch) 0 s"

text \<open>
  \<^verbatim>\<open>StrWhiteSpaceChar\<close> among the code units below 256: tab, line feed, vertical tab, form
  feed, carriage return, space and no-break space.
\<close>

definition is_space :: "char \<Rightarrow> bool" where
  "is_space ch = (char_code ch \<in> {9, 10, 11, 12, 13, 32, 160})"

definition trim :: "string \<Rightarrow> string" where
  "trim s = rev (dropWhile is_space (rev (dropWhile is_space s)))"

text \<open>
  \<^verbatim>\<open>NonDecimalIntegerLiteral\<close>: \<^verbatim>\<open>0b\<close>, \<^verbatim>\<open>0o\<close> or \<^verbatim>\<open>0x\<close> (either case) and at least one
  digit of that radix, nothing else.
\<close>

definition radix_of_prefix :: "string \<Rightarrow> int option" where
  "radix_of_prefix s =
     (case s of
        z # p # rest \<Rightarrow>
          if z \<noteq> CHR ''0'' \<or> rest = [] then None
          else if p = CHR ''x'' \<or> p = CHR ''X'' then Some 16
          else if p = CHR ''o'' \<or> p = CHR ''O'' then Some 8
          else if p = CHR ''b'' \<or> p = CHR ''B'' then Some 2
          else None
      | _ \<Rightarrow> None)"

definition non_decimal_literal :: "string \<Rightarrow> int option" where
  "non_decimal_literal s =
     (case radix_of_prefix s of
        None \<Rightarrow> None
      | Some radix \<Rightarrow>
          if list_all (is_radix_digit radix) (drop 2 s)
          then Some (digits_value radix (drop 2 s)) else None)"

text \<open>\<^verbatim>\<open>SignedInteger\<close>: an optional sign and at least one decimal digit.\<close>

definition signed_integer :: "string \<Rightarrow> int option" where
  "signed_integer s =
     (let neg = (s \<noteq> [] \<and> hd s = CHR ''-'');
          ds = (if s \<noteq> [] \<and> (hd s = CHR ''-'' \<or> hd s = CHR ''+'') then tl s else s)
      in if ds \<noteq> [] \<and> list_all is_digit ds
         then Some (if neg then - digits_value 10 ds else digits_value 10 ds)
         else None)"

text \<open>
  \<^verbatim>\<open>StrUnsignedDecimalLiteral\<close> other than \<^verbatim>\<open>Infinity\<close>: digits with an optional fraction
  and an optional exponent part, at least one digit before the exponent. The result is the
  exact value as a fraction.
\<close>

definition unsigned_decimal :: "string \<Rightarrow> rat option" where
  "unsigned_decimal s =
     (let ip = takeWhile is_digit s;
          r1 = dropWhile is_digit s;
          dot = (r1 \<noteq> [] \<and> hd r1 = CHR ''.'');
          fp = (if dot then takeWhile is_digit (tl r1) else []);
          r2 = (if dot then dropWhile is_digit (tl r1) else r1);
          ex = (if r2 = [] then Some 0
                else if hd r2 = CHR ''e'' \<or> hd r2 = CHR ''E'' then signed_integer (tl r2)
                else None)
      in if ip = [] \<and> fp = [] then None
         else case ex of
             None \<Rightarrow> None
           | Some e \<Rightarrow>
               Some (of_int (digits_value 10 (ip @ fp)) * pow10 (e - int (length fp))))"

text \<open>
  \<^verbatim>\<open>StringToNumber\<close>, the conversion behind \<^verbatim>\<open>Number(s)\<close>: white space is trimmed, the
  empty string is 0, a literal is rounded to the nearest double, anything else is NaN.
  (The language leaves an implementation some freedom beyond the twentieth significant
  digit of a literal; the engines round correctly, and so does this definition.)
\<close>

definition StringToNumber :: "string \<Rightarrow> number" where
  "StringToNumber str =
     (let s = trim str
      in if s = [] then Fin 0
         else case non_decimal_literal s of
             Some v \<Rightarrow> round_double (of_int v)
           | None \<Rightarrow>
              (let neg = (hd s = CHR ''-'');
                   u = (if hd s = CHR ''-'' \<or> hd s = CHR ''+'' then tl s else s)
               in if u = ''Infinity'' then (if neg then NInf else PInf)
                  else case unsigned_decimal u of
                      None \<Rightarrow> NaN
                    | Some q \<Rightarrow> round_double (if neg then - q else q)))"

section \<open>Printing a Number\<close>

definition digit_char :: "int \<Rightarrow> char" where
  "digit_char d = char_of (48 + d)"

function decimal_digits :: "int \<Rightarrow> string" where
  "decimal_digits n =
     (if n < 10 then [digit_char n] else decimal_digits (n div 10) @ [digit_char (n mod 10)])"
  by pat_completeness auto
termination
  by (relation "measure nat") (auto simp: int_div_less_self)

text \<open>
  The digits of \<^verbatim>\<open>Number::toString\<close> for a positive double \<open>q\<close>: integers \<open>n\<close>, \<open>k\<close>, \<open>s\<close>
  with \<open>10 ^ (k - 1) \<le> s < 10 ^ k\<close> such that \<open>s * 10 ^ (n - k)\<close> rounds to \<open>q\<close> and \<open>k\<close> is
  as small as possible; of two such \<open>s\<close> the one nearer to \<open>q\<close>, and the even one if they
  are equally near. \<open>candidate q n k\<close> is that \<open>s\<close> for a given \<open>k\<close>, if there is one, among
  the two neighbours of \<open>q / 10 ^ (n - k)\<close>.
\<close>

definition candidate :: "rat \<Rightarrow> int \<Rightarrow> int \<Rightarrow> int option" where
  "candidate q n k =
     (let step = pow10 (n - k);
          lo = \<lfloor>q / step\<rfloor>;
          hi = lo + 1;
          ok_lo = (round_double (of_int lo * step) = Fin q);
          ok_hi = (round_double (of_int hi * step) = Fin q);
          d_lo = q - of_int lo * step;
          d_hi = of_int hi * step - q
      in if ok_lo \<and> ok_hi then
           (if d_lo < d_hi then Some lo
            else if d_hi < d_lo then Some hi
            else if even lo then Some lo else Some hi)
         else if ok_lo then Some lo
         else if ok_hi then Some hi
         else None)"

text \<open>Seventeen digits identify every double, so the search stops there at the latest.\<close>

function shortest :: "rat \<Rightarrow> int \<Rightarrow> int \<Rightarrow> int \<times> int" where
  "shortest q n k =
     (case candidate q n k of
        Some s \<Rightarrow> (k, s)
      | None \<Rightarrow>
          if 17 \<le> k then (k, round_half_even (fst (quotient_of (q / pow10 (n - k))))
                                (snd (quotient_of (q / pow10 (n - k)))))
          else shortest q n (k + 1))"
  by pat_completeness auto
termination
  by (relation "measure (\<lambda>(q, n, k). nat (17 - k))") auto

definition to_digits :: "rat \<Rightarrow> int \<times> int \<times> int" where
  "to_digits q =
     (let (a, b) = quotient_of q;
          n = magnitude 10 a b;
          (k, s) = shortest q n 1
      in if s = 10 ^ nat k then (n + 1, 1, 1) else (n, k, s))"

definition format_digits :: "int \<times> int \<times> int \<Rightarrow> string" where
  "format_digits nks =
     (let (n, k, s) = nks; ds = decimal_digits s
      in if k \<le> n \<and> n \<le> 21 then ds @ replicate (nat (n - k)) CHR ''0''
         else if 0 < n \<and> n \<le> 21 then take (nat n) ds @ ''.'' @ drop (nat n) ds
         else if - 6 < n \<and> n \<le> 0 then ''0.'' @ replicate (nat (- n)) CHR ''0'' @ ds
         else
           (let e = n - 1;
                ex = (if e < 0 then ''e-'' else ''e+'') @ decimal_digits \<bar>e\<bar>
            in if k = 1 then ds @ ex else take 1 ds @ ''.'' @ drop 1 ds @ ex))"

text \<open>\<^verbatim>\<open>x.toString()\<close> for a Number \<open>x\<close>.\<close>

definition Number_toString :: "number \<Rightarrow> string" where
  "Number_toString x =
     (case x of
        NaN \<Rightarrow> ''NaN''
      | PInf \<Rightarrow> ''Infinity''
      | NInf \<Rightarrow> ''-Infinity''
      | Fin q \<Rightarrow>
          if q = 0 then ''0''
          else if q < 0 then ''-'' @ format_digits (to_digits (- q))
          else format_digits (to_digits q))"

text \<open>
  \<^verbatim>\<open>BigInt(s)\<close> for a string: \<^verbatim>\<open>StringToBigInt\<close>, which reads white space around an
  optionally signed decimal integer or an unsigned literal in radix 2, 8 or 16, the empty
  string as 0, and throws a SyntaxError on anything else.
\<close>

definition BigInt :: "string \<Rightarrow> error + int" where
  "BigInt str =
     (let s = trim str
      in if s = [] then Inr 0
         else case non_decimal_literal s of
             Some v \<Rightarrow> Inr v
           | None \<Rightarrow>
              (case signed_integer s of
                 Some v \<Rightarrow> Inr v
               | None \<Rightarrow> Inl SyntaxError))"

section \<open>The transfer content and its validation\<close>

text \<open>
  \<^verbatim>\<open>interface TransferContent\<close>: the four fields the action reads. The declared types
  are not enforced at run time, which is why \<^verbatim>\<open>isTransferContent\<close> tests them.
\<close>

record content =
  tokenAddress :: jsval
  recipient :: jsval
  starkName :: jsval
  amount :: jsval

text \<open>\<^verbatim>\<open>s.startsWith("0x") && s.length === 66\<close>, written twice in the source.\<close>

definition validAddress :: "string \<Rightarrow> bool" where
  "validAddress s = (startsWith s ''0x'' \<and> length s = 66)"

text \<open>
  \<^verbatim>\<open>isTransferContent\<close>. The validator \<^verbatim>\<open>isStarkDomain\<close> is imported from
  \<^verbatim>\<open>../utils/starknetId\<close> and is a parameter here. A truthy \<^verbatim>\<open>recipient\<close> that is
  not a string has no \<^verbatim>\<open>startsWith\<close> method, so the call throws a TypeError.
\<close>

definition isTransferContent :: "(jsval \<Rightarrow> bool) \<Rightarrow> content \<Rightarrow> error + bool" where
  "isTransferContent isStarkDomain c =
     (let validTypes =
            (is_string (tokenAddress c) \<and>
             (is_string (recipient c) \<or> is_string (starkName c)) \<and>
             (is_string (amount c) \<or> is_number (amount c)))
      in if \<not> validTypes then Inr False
         else case tokenAddress c of
             JStr t \<Rightarrow>
               if \<not> validAddress t then Inr False
               else if truthy (recipient c) then
                 (case recipient c of
                    JStr r \<Rightarrow> if \<not> validAddress r then Inr False else Inr True
                  | _ \<Rightarrow> Inl TypeError)
               else if truthy (starkName c) then
                 (if \<not> isStarkDomain (starkName c) then Inr False else Inr True)
               else Inr True
           | _ \<Rightarrow> Inr False)"

text \<open>
  Modelled from the spec: \<^verbatim>\<open>isStarkDomain\<close> is not part of the sources at hand. The
  specification describes the grammar as a non-empty label of ASCII alphanumerics and
  hyphens followed by the suffix \<^verbatim>\<open>.stark\<close>. It is used for concrete examples only; the
  general results hold for every validator.
\<close>

definition is_label_char :: "char \<Rightarrow> bool" where
  "is_label_char ch =
     (let n = of_char ch :: nat
      in (48 \<le> n \<and> n \<le> 57) \<or> (65 \<le> n \<and> n \<le> 90) \<or> (97 \<le> n \<and> n \<le> 122) \<or> n = 45)"

fun isStarkDomain_spec :: "jsval \<Rightarrow> bool" where
  "isStarkDomain_spec (JStr s) =
     (6 < length s \<and> drop (length s - 6) s = ''.stark'' \<and>
      list_all is_label_char (take (length s - 6) s))"
| "isStarkDomain_spec v = False"

subsection \<open>Example contents\<close>

definition strk :: string where
  "strk = ''0x04718f5a0fc34cc1af16a1cdee98ffb20c31f5cd61d6ab07201858f4287c938d''"

definition alice :: string where
  "alice = ''0x069a419C6ebab0a6aA74CA8e0bCFD9b3b17c985901Dc00e9BaD25cbD05e75343''"

definition both_given :: content where
  "both_given = \<lparr>tokenAddress = JStr strk, recipient = JStr alice,
     starkName = JStr ''alice.stark'', amount = JNum (Fin 1)\<rparr>"

definition no_recipient :: content where
  "no_recipient = \<lparr>tokenAddress = JStr strk, recipient = JStr [],
     starkName = JUndefined, amount = JNum (Fin 1)\<rparr>"

definition negative_amount :: content where
  "negative_amount = \<lparr>tokenAddress = JStr strk, recipient = JStr alice,
     starkName = JUndefined, amount = JNum (Fin (- 1))\<rparr>"

definition not_hex_token :: content where
  "not_hex_token = \<lparr>tokenAddress = JStr (''0x'' @ replicate 64 CHR ''z''),
     recipient = JStr alice, starkName = JUndefined, amount = JNum (Fin 1)\<rparr>"

section \<open>The amount in the token's smallest unit\<close>

text \<open>\<^verbatim>\<open>Number(v)\<close>; a \<open>JObject\<close> stands for a plain object, which converts to NaN.\<close>

fun ToNumber :: "jsval \<Rightarrow> number" where
  "ToNumber JUndefined = NaN"
| "ToNumber JNull = Fin 0"
| "ToNumber (JBool b) = Fin (if b then 1 else 0)"
| "ToNumber (JNum x) = x"
| "ToNumber (JStr s) = StringToNumber s"
| "ToNumber JObject = NaN"

text \<open>
  Lines 184 to 186 of \<^verbatim>\<open>transfer.ts\<close>:
  \<^verbatim>\<open>Math.floor(Number(content.amount) * Math.pow(10, Number(decimals)))\<close>, where
  \<^verbatim>\<open>decimals\<close> is the non-negative integer that the token contract reported.
\<close>

definition amountInteger :: "(nat \<Rightarrow> number) \<Rightarrow> jsval \<Rightarrow> nat \<Rightarrow> number" where
  "amountInteger engine a d = Math_floor (number_times (ToNumber a) (Math_pow10 engine d))"

text \<open>Line 187: \<^verbatim>\<open>BigInt(amountInteger.toString())\<close>, which throws on a string that is no integer.\<close>

definition amountWei :: "(nat \<Rightarrow> number) \<Rightarrow> jsval \<Rightarrow> nat \<Rightarrow> error + int" where
  "amountWei engine a d = BigInt (Number_toString (amountInteger engine a d))"

text \<open>
  Modelled from the spec: the sources have no conversion from minor units back to an
  amount. The specification writes it \<^verbatim>\<open>minorUnits / 10^d\<close>; it is taken here as the
  Number nearest to that quotient, which is what the division of the two Numbers gives
  when the integer and the power of ten are doubles.
\<close>

definition minorUnitsToAmount :: "int \<Rightarrow> nat \<Rightarrow> jsval" where
  "minorUnitsToAmount m d = JNum (round_double (of_int m / 10 ^ d))"

section \<open>The collaborators and the calls made to them\<close>

text \<open>
  The agent runtime, the language model, the wallet account, the \<^verbatim>\<open>ERC20Token\<close> wrapper,
  the name service and the recipient database are outside the sources at hand. A call
  that the handler awaits returns a value, throws an error (its promise is rejected), or
  never settles; a call that it does not await returns or throws. Every call is recorded,
  in order, as an event. \<open>'call\<close> is the type of the call data that \<^verbatim>\<open>transferCall\<close>
  builds.
\<close>

datatype 'a outcome = Returns 'a | Throws error | Never

text \<open>The outcome of a call that is not awaited.\<close>

definition of_sum :: "error + 'a \<Rightarrow> 'a outcome" where
  "of_sum r = (case r of Inl e \<Rightarrow> Throws e | Inr x \<Rightarrow> Returns x)"

datatype reply = InvalidContent | TransferFailed error | ThankYou jsval

datatype 'call event =
    UpdateState
  | ComposeContext
  | GenerateObject
  | GetAccount
  | Decimals jsval
  | ResolveName jsval
  | TransferCall jsval int
  | Execute 'call
  | GetRecipient jsval
  | AddRecipient jsval jsval
  | Callback reply

text \<open>
  What a run of the handler meets:
  \<^item> \<open>stateUpdate\<close>: the outcome of \<^verbatim>\<open>runtime.composeState\<close> or
    \<^verbatim>\<open>runtime.updateRecentMessageState\<close>, as the value of \<^verbatim>\<open>state.recentMessages\<close>
    afterwards;
  \<^item> \<open>composeContext\<close>: the context string, or the error thrown;
  \<^item> \<open>generateObjectDeprecated\<close>: the outcome of the language-model call, \<open>Some\<close> for an
    object and \<open>None\<close> for \<^verbatim>\<open>null\<close>, \<^verbatim>\<open>undefined\<close> or another value that is no object (on
    all of which the assignment of a property throws in a module);
  \<^item> \<open>STRK\<close>: the constant \<^verbatim>\<open>PROVIDER_CONFIG.TOKEN_ADDRESSES.STRK\<close>;
  \<^item> \<open>randomAmount\<close>: the draw \<^verbatim>\<open>Number((Math.random() * 4 + 1).toFixed(3))\<close>;
  \<^item> \<open>hasCallback\<close>: whether a callback was passed. The callback is asynchronous and is
    not awaited, so nothing it does reaches the handler;
  \<^item> \<open>mathPow10\<close>: the engine's \<^verbatim>\<open>Math.pow(10, d)\<close> beyond \<open>d = 22\<close>;
  \<^item> the remaining fields are the collaborators' functions.
  The calls of \<^verbatim>\<open>elizaLogger\<close> are taken to return.
\<close>

record 'call env =
  stateUpdate :: "jsval outcome"
  composeContext :: "error + string"
  generateObjectDeprecated :: "content option outcome"
  STRK :: jsval
  randomAmount :: number
  hasCallback :: bool
  mathPow10 :: "nat \<Rightarrow> number"
  isStarkDomain :: "jsval \<Rightarrow> bool"
  getStarknetAccount :: "error + unit"
  decimals :: "jsval \<Rightarrow> nat outcome"
  getAddressFromName :: "jsval \<Rightarrow> jsval outcome"
  transferCall :: "jsval \<Rightarrow> jsval \<Rightarrow> int \<Rightarrow> error + 'call"
  execute :: "'call \<Rightarrow> string outcome"
  getRecipient :: "jsval \<Rightarrow> bool outcome"
  addRecipient :: "jsval \<Rightarrow> jsval \<Rightarrow> bool outcome"

text \<open>
  A computation yields the events so far and its outcome. An error that is thrown, or a
  call that never settles, ends the sequence of steps.
\<close>

type_synonym ('call, 'a) io = "'call event list \<times> 'a outcome"

definition call_io :: "'call event \<Rightarrow> 'a outcome \<Rightarrow> ('call, 'a) io" where
  "call_io ev r = ([ev], r)"

definition pure_io :: "'a outcome \<Rightarrow> ('call, 'a) io" where
  "pure_io r = ([], r)"

definition bind_io :: "('call, 'a) io \<Rightarrow> ('a \<Rightarrow> ('call, 'b) io) \<Rightarrow> ('call, 'b) io" where
  "bind_io m f =
     (case m of
        (t, Returns x) \<Rightarrow> (case f x of (t', r) \<Rightarrow> (t @ t', r))
      | (t, Throws e) \<Rightarrow> (t, Throws e)
      | (t, Never) \<Rightarrow> (t, Never))"

section \<open>The handler\<close>

text \<open>
  The body of the \<^verbatim>\<open>try\<close> block, lines 180 to 202 of \<^verbatim>\<open>transfer.ts\<close>, up to the
  transaction that \<^verbatim>\<open>account.execute\<close> returns. The construction of the
  \<^verbatim>\<open>ERC20Token\<close> wrapper and its \<^verbatim>\<open>decimals\<close> call are one step.
\<close>

definition transfer :: "'call env \<Rightarrow> content \<Rightarrow> ('call, string) io" where
  "transfer env c =
     bind_io (call_io GetAccount (of_sum (getStarknetAccount env))) (\<lambda>account.
     bind_io (call_io (Decimals (tokenAddress c)) (decimals env (tokenAddress c))) (\<lambda>d.
     bind_io (pure_io (of_sum (amountWei (mathPow10 env) (amount c) d))) (\<lambda>wei.
     bind_io (if nullish (recipient c)
              then call_io (ResolveName (starkName c)) (getAddressFromName env (starkName c))
              else pure_io (Returns (recipient c))) (\<lambda>r.
     bind_io (call_io (TransferCall r wei)
                (of_sum (transferCall env (tokenAddress c) r wei))) (\<lambda>call.
     call_io (Execute call) (execute env call))))))"

definition callback :: "'call env \<Rightarrow> reply \<Rightarrow> 'call event list" where
  "callback env r = (if hasCallback env then [Callback r] else [])"

text \<open>
  Lines 168 to 227: the validation of the content and the \<^verbatim>\<open>try\<close>/\<^verbatim>\<open>catch\<close> around the
  transfer. An error thrown by \<^verbatim>\<open>isTransferContent\<close> is outside the \<^verbatim>\<open>try\<close> and leaves
  the handler; an error thrown inside is caught, reported and turned into \<^verbatim>\<open>false\<close>; a
  call that never settles leaves the handler waiting.
\<close>

definition validate_and_transfer :: "'call env \<Rightarrow> content \<Rightarrow> ('call, bool) io" where
  "validate_and_transfer env c =
     (case isTransferContent (isStarkDomain env) c of
        Inl e \<Rightarrow> ([], Throws e)
      | Inr False \<Rightarrow> (callback env InvalidContent, Returns False)
      | Inr True \<Rightarrow>
          (case transfer env c of
             (t, Returns tx) \<Rightarrow> (t @ callback env (ThankYou (amount c)), Returns True)
           | (t, Throws e) \<Rightarrow> (t @ callback env (TransferFailed e), Returns False)
           | (t, Never) \<Rightarrow> (t, Never)))"

text \<open>
  \<^verbatim>\<open>state.recentMessages.match(/0x[a-fA-F0-9]{64}/)\<close>: the leftmost place where \<^verbatim>\<open>0x\<close> and
  64 hexadecimal digits follow each other, and the 66 characters found there.
\<close>

definition is_hex :: "char \<Rightarrow> bool" where
  "is_hex ch = is_radix_digit 16 ch"

definition matches_here :: "string \<Rightarrow> bool" where
  "matches_here s =
     (startsWith s ''0x'' \<and> length (take 64 (drop 2 s)) = 64 \<and>
      list_all is_hex (take 64 (drop 2 s)))"

fun match_address :: "string \<Rightarrow> string option" where
  "match_address [] = None"
| "match_address (ch # s) =
     (if matches_here (ch # s) then Some (take 66 (ch # s)) else match_address s)"

text \<open>
  Lines 125 to 155 of \<^verbatim>\<open>transfer.ts\<close>, all of them outside the \<^verbatim>\<open>try\<close>: the state update
  is awaited, \<^verbatim>\<open>match\<close> is called on \<^verbatim>\<open>state.recentMessages\<close> (a TypeError unless that is
  a string), the context is composed, the language-model call is awaited, and
  \<^verbatim>\<open>tokenAddress\<close> is assigned on its result (a TypeError if that is no object). The
  continuation gets the result of \<^verbatim>\<open>match\<close> and the content with its token address
  set.
\<close>

definition compose_and_generate ::
  "'call env \<Rightarrow> (string option \<Rightarrow> content \<Rightarrow> ('call, bool) io) \<Rightarrow> ('call, bool) io" where
  "compose_and_generate env continue =
     bind_io (call_io UpdateState (stateUpdate env)) (\<lambda>recentMessages.
       case recentMessages of
         JStr s \<Rightarrow>
           bind_io (call_io ComposeContext (of_sum (composeContext env))) (\<lambda>transferContext.
           bind_io (call_io GenerateObject (generateObjectDeprecated env)) (\<lambda>generated.
             case generated of
               None \<Rightarrow> pure_io (Throws TypeError)
             | Some c \<Rightarrow> continue (match_address s) (c\<lparr>tokenAddress := STRK env\<rparr>)))
       | _ \<Rightarrow> pure_io (Throws TypeError))"

text \<open>
  The handler of \<^verbatim>\<open>transfer.ts\<close>. Lines 157 to 164: without a match it returns false;
  with one, the match becomes the recipient and the amount is drawn.
\<close>

definition handler :: "'call env \<Rightarrow> ('call, bool) io" where
  "handler env =
     compose_and_generate env (\<lambda>recipient c.
       case recipient of
         None \<Rightarrow> pure_io (Returns False)
       | Some r \<Rightarrow>
           validate_and_transfer env
             (c\<lparr>recipient := JStr r, amount := JNum (randomAmount env)\<rparr>))"

text \<open>
  The second source file has the same handler with two differences before the validation:
  the random amount only replaces a falsy \<^verbatim>\<open>content.amount\<close>, and the recipient is looked
  up in, and then added to, a database of recipients, either of which can end the handler
  with false.
\<close>

definition record_and_transfer :: "'call env \<Rightarrow> content \<Rightarrow> ('call, bool) io" where
  "record_and_transfer env c =
     bind_io (call_io (GetRecipient (recipient c)) (getRecipient env (recipient c)))
       (\<lambda>recipientExists.
          if recipientExists then pure_io (Returns False)
          else bind_io
            (call_io (AddRecipient (recipient c) (amount c))
               (addRecipient env (recipient c) (amount c)))
            (\<lambda>added. if \<not> added then pure_io (Returns False)
               else validate_and_transfer env c))"

definition handler_part_000 :: "'call env \<Rightarrow> ('call, bool) io" where
  "handler_part_000 env =
     compose_and_generate env (\<lambda>recipient c.
       case recipient of
         None \<Rightarrow> pure_io (Returns False)
       | Some r \<Rightarrow>
           (let c1 = c\<lparr>recipient := JStr r\<rparr>
            in record_and_transfer env
                 (if \<not> truthy (amount c1) then c1\<lparr>amount := JNum (randomAmount env)\<rparr>
                  else c1)))"

section \<open>Specification-level notions and examples\<close>

text \<open>
  The recent messages contain an address: somewhere in them \<^verbatim>\<open>0x\<close> is followed by 64
  hexadecimal digits.
\<close>

definition has_address :: "string \<Rightarrow> bool" where
  "has_address s = (\<exists>u h v. s = u @ ''0x'' @ h @ v \<and> length h = 64 \<and> list_all is_hex h)"

text \<open>
  The amount in minor units as the specification defines it: the exact product of the
  amount and \<open>10 ^ d\<close>, truncated toward zero.
\<close>

definition exactMinorUnits :: "rat \<Rightarrow> nat \<Rightarrow> int" where
  "exactMinorUnits q d = (if 0 \<le> q then \<lfloor>q * 10 ^ d\<rfloor> else - \<lfloor>- q * 10 ^ d\<rfloor>)"

definition named_content :: content where
  "named_content = \<lparr>tokenAddress = JStr strk, recipient = JUndefined,
     starkName = JStr ''alice.stark'', amount = JNum (Fin 2)\<rparr>"

definition nan_amount :: content where
  "nan_amount = \<lparr>tokenAddress = JStr strk, recipient = JStr alice,
     starkName = JUndefined, amount = JStr ''one''\<rparr>"

definition generated_content :: content where
  "generated_content = \<lparr>tokenAddress = JUndefined, recipient = JNull, starkName = JNull,
     amount = JStr ''2''\<rparr>"

text \<open>
  An environment in which every call returns: the recent messages are \<open>msgs\<close>, the language
  model yields an object, the token has \<open>d\<close> decimals, the name service knows one address,
  the call data is the triple of token, recipient and amount, and the recipient database
  is empty.
\<close>

definition example_env :: "string \<Rightarrow> nat \<Rightarrow> (jsval \<times> jsval \<times> int) env" where
  "example_env msgs d =
     \<lparr>stateUpdate = Returns (JStr msgs), composeContext = Inr ''context'',
      generateObjectDeprecated = Returns (Some generated_content), STRK = JStr strk,
      randomAmount = StringToNumber ''1.001'', hasCallback = True,
      mathPow10 = nearest_pow10, isStarkDomain = isStarkDomain_spec,
      getStarknetAccount = Inr (), decimals = (\<lambda>t. Returns d),
      getAddressFromName = (\<lambda>n. Returns (JStr alice)),
      transferCall = (\<lambda>t r a. Inr (t, r, a)), execute = (\<lambda>c. Returns ''0x1''),
      getRecipient = (\<lambda>r. Returns False), addRecipient = (\<lambda>r a. Returns True)\<rparr>"

text \<open>An environment whose \<^verbatim>\<open>transferCall\<close> refuses a negative amount.\<close>

definition strict_env :: "(jsval \<times> jsval \<times> int) env" where
  "strict_env =
     (example_env [] 18)\<lparr>transferCall :=
        (\<lambda>t r a. if a < 0 then Inl (Thrown ''negative amount'') else Inr (t, r, a))\<rparr>"

text \<open>The same as \<open>example_env\<close>, with a language model that yields \<^verbatim>\<open>null\<close>.\<close>

definition null_content_env :: "(jsval \<times> jsval \<times> int) env" where
  "null_content_env =
     (example_env ''Happy New Year!'' 18)\<lparr>generateObjectDeprecated := Returns None\<rparr>"

section \<open>Validation results\<close>

lemma validAddress_strk: "validAddress strk"
  by (simp add: validAddress_def startsWith_def strk_def)

lemma validAddress_alice: "validAddress alice"
  by (simp add: validAddress_def startsWith_def alice_def)

lemma alice_not_empty: "alice \<noteq> []"
  by (simp add: alice_def)

lemma validAddress_iff: "validAddress t \<longleftrightarrow> take 2 t = ''0x'' \<and> length t = 66"
  by (simp add: validAddress_def startsWith_def numeral_2_eq_2)

text \<open>
  C8. With a 66-character \<^verbatim>\<open>0x\<close>-prefixed \<^verbatim>\<open>tokenAddress\<close> and an \<^verbatim>\<open>amount\<close> that is a
  string or a number, a content whose \<^verbatim>\<open>recipient\<close> is the empty string and whose
  \<^verbatim>\<open>starkName\<close> is absent or also the empty string is accepted: both shape checks are
  skipped, because both branches test truthiness.
\<close>

theorem C8_empty_recipient_accepted:
  assumes "tokenAddress c = JStr t" and "length t = 66" and "take 2 t = ''0x''"
    and "is_string (amount c) \<or> is_number (amount c)"
    and "recipient c = JStr []"
    and "starkName c = JUndefined \<or> starkName c = JNull \<or> starkName c = JStr []"
  shows "isTransferContent isd c = Inr True"
  using assms by (auto simp: isTransferContent_def validAddress_iff)

theorem C8_empty_recipient_accepted_witness:
  "tokenAddress no_recipient = JStr strk \<and> length strk = 66 \<and> take 2 strk = ''0x''
   \<and> (is_string (amount no_recipient) \<or> is_number (amount no_recipient))
   \<and> recipient no_recipient = JStr []
   \<and> starkName no_recipient = JUndefined
   \<and> isTransferContent isStarkDomain_spec no_recipient = Inr True"
proof -
  have t: "tokenAddress no_recipient = JStr strk" and l: "length strk = 66"
    and p: "take 2 strk = ''0x''"
    and a: "is_string (amount no_recipient) \<or> is_number (amount no_recipient)"
    and r: "recipient no_recipient = JStr []"
    and s: "starkName no_recipient = JUndefined"
    by (simp_all add: no_recipient_def strk_def)
  from s have s': "starkName no_recipient = JUndefined \<or> starkName no_recipient = JNull
      \<or> starkName no_recipient = JStr []" by simp
  from C8_empty_recipient_accepted [OF t l p a r s', of isStarkDomain_spec] t l p a r s
  show ?thesis by simp
qed

text \<open>
  C2, as stated, fails: a content that supplies both a well-formed \<^verbatim>\<open>recipient\<close> and a
  \<^verbatim>\<open>starkName\<close> is accepted, because the \<^verbatim>\<open>starkName\<close> branch is an \<^verbatim>\<open>else if\<close> of the
  \<^verbatim>\<open>recipient\<close> branch.
\<close>

theorem C2_both_fields_accepted:
  "isTransferContent isStarkDomain_spec both_given = Inr True"
  by (simp add: isTransferContent_def both_given_def validAddress_strk validAddress_alice
      alice_not_empty)

text \<open>
  C2, amended. With a 66-character \<^verbatim>\<open>0x\<close>-prefixed token address and an amount that is a
  string or a number: a non-empty \<^verbatim>\<open>recipient\<close> string decides the result alone (true
  exactly when it is \<^verbatim>\<open>0x\<close>-prefixed and 66 characters long, whatever \<^verbatim>\<open>starkName\<close> is);
  with \<^verbatim>\<open>recipient\<close> absent, a non-empty \<^verbatim>\<open>starkName\<close> string is accepted exactly when
  \<^verbatim>\<open>isStarkDomain\<close> accepts it; and the result is false when neither field is a string.
\<close>

theorem C2_recipient_fields:
  assumes "tokenAddress c = JStr t" and "length t = 66" and "take 2 t = ''0x''"
    and "is_string (amount c) \<or> is_number (amount c)"
  shows "(recipient c = JStr r \<and> r \<noteq> [] \<longrightarrow>
            isTransferContent isd c = Inr (take 2 r = ''0x'' \<and> length r = 66))
       \<and> (nullish (recipient c) \<and> starkName c = JStr n \<and> n \<noteq> [] \<longrightarrow>
            isTransferContent isd c = Inr (isd (JStr n)))
       \<and> (\<not> is_string (recipient c) \<and> \<not> is_string (starkName c) \<longrightarrow>
            isTransferContent isd c = Inr False)"
proof -
  have v: "validAddress t"
    using assms(2,3) by (simp add: validAddress_iff)
  have a: "recipient c = JStr r \<and> r \<noteq> [] \<longrightarrow>
      isTransferContent isd c = Inr (take 2 r = ''0x'' \<and> length r = 66)"
    using assms(1,4) v by (simp add: isTransferContent_def validAddress_iff)
  have b: "nullish (recipient c) \<and> starkName c = JStr n \<and> n \<noteq> [] \<longrightarrow>
      isTransferContent isd c = Inr (isd (JStr n))"
    using assms(1,4) v by (cases "recipient c") (simp_all add: isTransferContent_def)
  have d: "\<not> is_string (recipient c) \<and> \<not> is_string (starkName c) \<longrightarrow>
      isTransferContent isd c = Inr False"
    by (simp add: isTransferContent_def)
  from a b d show ?thesis by blast
qed

theorem C2_recipient_fields_witness:
  "tokenAddress both_given = JStr strk \<and> length strk = 66 \<and> take 2 strk = ''0x''
   \<and> is_number (amount both_given)
   \<and> recipient both_given = JStr alice \<and> alice \<noteq> []
   \<and> isTransferContent isStarkDomain_spec both_given
       = Inr (take 2 alice = ''0x'' \<and> length alice = 66)
   \<and> take 2 alice = ''0x'' \<and> length alice = 66"
proof -
  have t: "tokenAddress both_given = JStr strk" and l: "length strk = 66"
    and p: "take 2 strk = ''0x''" and a: "is_number (amount both_given)"
    and r: "recipient both_given = JStr alice" and ne: "alice \<noteq> []"
    and pa: "take 2 alice = ''0x''" and la: "length alice = 66"
    by (simp_all add: both_given_def strk_def alice_def)
  from a have a': "is_string (amount both_given) \<or> is_number (amount both_given)" ..
  from C2_recipient_fields [OF t l p a', of alice isStarkDomain_spec] r ne
  have "isTransferContent isStarkDomain_spec both_given
      = Inr (take 2 alice = ''0x'' \<and> length alice = 66)" by blast
  with t l p a r ne pa la show ?thesis by blast
qed

text \<open>
  C3, as stated, fails: the numeric value of \<^verbatim>\<open>amount\<close> is never inspected, so a content
  with the amount \<^verbatim>\<open>-1\<close> (finite, not greater than zero) is accepted.
\<close>

theorem C3_negative_amount_accepted:
  "isTransferContent isStarkDomain_spec negative_amount = Inr True"
  by (simp add: isTransferContent_def negative_amount_def validAddress_strk validAddress_alice
      alice_not_empty)

text \<open>
  C3, amended. Validation looks at the type of \<^verbatim>\<open>amount\<close> only: it returns false when
  \<^verbatim>\<open>amount\<close> is neither a string nor a number, and for amounts that are strings or
  numbers the result does not depend on which string or number it is.
\<close>

theorem C3_amount_type_only:
  "(\<not> is_string (amount c) \<and> \<not> is_number (amount c) \<longrightarrow>
      isTransferContent isd c = Inr False)
   \<and> ((is_string a \<or> is_number a) \<and> (is_string b \<or> is_number b) \<longrightarrow>
      isTransferContent isd (c\<lparr>amount := a\<rparr>)
        = isTransferContent isd (c\<lparr>amount := b\<rparr>))"
  by (simp add: isTransferContent_def split: jsval.splits)

theorem C3_amount_type_only_witness:
  "isTransferContent isStarkDomain_spec (negative_amount\<lparr>amount := JBool True\<rparr>) = Inr False
   \<and> is_number (JNum (Fin (- 1))) \<and> is_string (JStr ''2.5'')
   \<and> isTransferContent isStarkDomain_spec (negative_amount\<lparr>amount := JNum (Fin (- 1))\<rparr>)
       = isTransferContent isStarkDomain_spec (negative_amount\<lparr>amount := JStr ''2.5''\<rparr>)"
  using C3_amount_type_only [of "negative_amount\<lparr>amount := JBool True\<rparr>" isStarkDomain_spec
      "JNum (Fin (- 1))" "JStr ''2.5''"]
    C3_amount_type_only [of negative_amount isStarkDomain_spec "JNum (Fin (- 1))" "JStr ''2.5''"]
  by simp

text \<open>
  C4, as stated, fails: the 64 characters after \<^verbatim>\<open>0x\<close> are never tested for being
  hexadecimal digits, so the token address \<^verbatim>\<open>0xzz...z\<close> (64 times \<^verbatim>\<open>z\<close>) is accepted.
\<close>

theorem C4_non_hex_token_accepted:
  "isTransferContent isStarkDomain_spec not_hex_token = Inr True"
proof -
  have "validAddress (''0x'' @ replicate 64 CHR ''z'')"
    by (simp add: validAddress_def startsWith_def)
  then show ?thesis
    by (simp add: isTransferContent_def not_hex_token_def validAddress_alice alice_not_empty)
qed

text \<open>
  C4, amended. Validation returns false unless the token address is a string of exactly
  66 characters that starts with \<^verbatim>\<open>0x\<close> (the remaining characters are not inspected); in
  particular the too-short address \<^verbatim>\<open>0xabc\<close> makes it return false.
\<close>

theorem C4_token_shape:
  "(\<not> (\<exists>t. tokenAddress c = JStr t \<and> length t = 66 \<and> take 2 t = ''0x'') \<longrightarrow>
      isTransferContent isd c = Inr False)
   \<and> (tokenAddress c = JStr ''0xabc'' \<longrightarrow> isTransferContent isd c = Inr False)"
  by (cases "tokenAddress c") (auto simp: isTransferContent_def validAddress_iff)

theorem C4_token_shape_witness:
  "tokenAddress (both_given\<lparr>tokenAddress := JStr ''0xabc''\<rparr>) = JStr ''0xabc''
   \<and> isTransferContent isStarkDomain_spec (both_given\<lparr>tokenAddress := JStr ''0xabc''\<rparr>)
       = Inr False"
  using C4_token_shape [of "both_given\<lparr>tokenAddress := JStr ''0xabc''\<rparr>" isStarkDomain_spec]
  by simp

section \<open>Recipient resolution and conversion failures\<close>

text \<open>The definitions behind a run of the transfer step.\<close>

lemmas io_defs = transfer_def bind_io_def call_io_def pure_io_def of_sum_def

lemma in_bind_io:
  "ev \<in> set (fst (bind_io m f)) \<longleftrightarrow>
     ev \<in> set (fst m) \<or> (\<exists>x. snd m = Returns x \<and> ev \<in> set (fst (f x)))"
proof (cases m)
  case (Pair t r)
  then show ?thesis
    by (cases r) (auto simp: bind_io_def split: prod.splits)
qed

lemma transfer_present:
  assumes "\<not> nullish (recipient c)"
  shows "ResolveName n \<notin> set (fst (transfer env c))"
    and "TransferCall r a \<in> set (fst (transfer env c)) \<Longrightarrow> r = recipient c"
  using assms
  by (auto simp: transfer_def in_bind_io call_io_def pure_io_def)

lemma transfer_present_run:
  assumes "\<not> nullish (recipient c)" and "getStarknetAccount env = Inr ()"
    and "decimals env (tokenAddress c) = Returns d"
    and "amountWei (mathPow10 env) (amount c) d = Inr w"
  shows "TransferCall (recipient c) w \<in> set (fst (transfer env c))"
    and "transferCall env (tokenAddress c) (recipient c) w = Inr call \<Longrightarrow>
           transfer env c =
             ([GetAccount, Decimals (tokenAddress c), TransferCall (recipient c) w, Execute call],
              execute env call)"
proof -
  show "TransferCall (recipient c) w \<in> set (fst (transfer env c))"
    using assms by (simp add: transfer_def in_bind_io call_io_def pure_io_def of_sum_def)
  show "transfer env c =
      ([GetAccount, Decimals (tokenAddress c), TransferCall (recipient c) w, Execute call],
       execute env call)"
    if "transferCall env (tokenAddress c) (recipient c) w = Inr call"
    using assms that by (simp add: io_defs)
qed

lemma transfer_resolve_only_absent:
  assumes "ResolveName n \<in> set (fst (transfer env c))"
  shows "nullish (recipient c) \<and> n = starkName c"
  using assms
  by (auto simp: transfer_def in_bind_io call_io_def pure_io_def split: if_splits)

lemma transfer_absent_run:
  assumes "nullish (recipient c)" and "getStarknetAccount env = Inr ()"
    and "decimals env (tokenAddress c) = Returns d"
    and "amountWei (mathPow10 env) (amount c) d = Inr w"
  shows "ResolveName (starkName c) \<in> set (fst (transfer env c))"
    and "getAddressFromName env (starkName c) = Returns a \<Longrightarrow>
           TransferCall a w \<in> set (fst (transfer env c))"
    and "getAddressFromName env (starkName c) = Returns a \<Longrightarrow>
         transferCall env (tokenAddress c) a w = Inr call \<Longrightarrow>
           transfer env c =
             ([GetAccount, Decimals (tokenAddress c), ResolveName (starkName c),
               TransferCall a w, Execute call], execute env call)"
proof -
  show "ResolveName (starkName c) \<in> set (fst (transfer env c))"
    using assms by (simp add: transfer_def in_bind_io call_io_def pure_io_def of_sum_def)
  show "TransferCall a w \<in> set (fst (transfer env c))"
    if "getAddressFromName env (starkName c) = Returns a"
    using assms that by (simp add: transfer_def in_bind_io call_io_def pure_io_def of_sum_def)
  show "transfer env c =
      ([GetAccount, Decimals (tokenAddress c), ResolveName (starkName c),
        TransferCall a w, Execute call], execute env call)"
    if "getAddressFromName env (starkName c) = Returns a"
      and "transferCall env (tokenAddress c) a w = Inr call"
    using assms that by (simp add: io_defs)
qed

text \<open>
  C5. For a content that validation accepted: if \<^verbatim>\<open>recipient\<close> is present (neither
  undefined nor null), the name service is never called, a transfer call is only ever
  built with that very value, and once the account, the decimals and the conversion
  succeeded the transfer call is built with it and the converted amount (the calls then
  made are exactly the account, the decimals, the transfer call and its execution). A call
  to the name service only happens with \<^verbatim>\<open>recipient\<close> absent, and then with \<^verbatim>\<open>starkName\<close>
  as its argument; with \<^verbatim>\<open>recipient\<close> absent the name service is called as soon as the
  account, the decimals and the conversion succeeded, and its answer is the address of
  the transfer call.
\<close>

theorem C5_recipient_resolution:
  assumes "isTransferContent isd c = Inr True"
  shows "(\<not> nullish (recipient c) \<longrightarrow>
            (\<forall>n. ResolveName n \<notin> set (fst (transfer env c)))
          \<and> (\<forall>r a. TransferCall r a \<in> set (fst (transfer env c)) \<longrightarrow> r = recipient c)
          \<and> (getStarknetAccount env = Inr () \<and> decimals env (tokenAddress c) = Returns d
               \<and> amountWei (mathPow10 env) (amount c) d = Inr w \<longrightarrow>
                TransferCall (recipient c) w \<in> set (fst (transfer env c))
              \<and> (\<forall>call. transferCall env (tokenAddress c) (recipient c) w = Inr call \<longrightarrow>
                   transfer env c =
                     ([GetAccount, Decimals (tokenAddress c), TransferCall (recipient c) w,
                       Execute call], execute env call))))
       \<and> (\<forall>n. ResolveName n \<in> set (fst (transfer env c)) \<longrightarrow>
            nullish (recipient c) \<and> n = starkName c)
       \<and> (nullish (recipient c) \<and> getStarknetAccount env = Inr ()
            \<and> decimals env (tokenAddress c) = Returns d
            \<and> amountWei (mathPow10 env) (amount c) d = Inr w \<longrightarrow>
            ResolveName (starkName c) \<in> set (fst (transfer env c))
          \<and> (\<forall>a. getAddressFromName env (starkName c) = Returns a \<longrightarrow>
                TransferCall a w \<in> set (fst (transfer env c))
              \<and> (\<forall>call. transferCall env (tokenAddress c) a w = Inr call \<longrightarrow>
                   transfer env c =
                     ([GetAccount, Decimals (tokenAddress c), ResolveName (starkName c),
                       TransferCall a w, Execute call], execute env call))))"
proof (intro conjI impI allI)
  fix n assume "\<not> nullish (recipient c)"
  then show "ResolveName n \<notin> set (fst (transfer env c))"
    by (rule transfer_present(1))
next
  fix r a assume "\<not> nullish (recipient c)" and "TransferCall r a \<in> set (fst (transfer env c))"
  then show "r = recipient c"
    by (rule transfer_present(2))
next
  assume p: "\<not> nullish (recipient c)"
    and h: "getStarknetAccount env = Inr () \<and> decimals env (tokenAddress c) = Returns d
      \<and> amountWei (mathPow10 env) (amount c) d = Inr w"
  from h have h1: "getStarknetAccount env = Inr ()"
    and h2: "decimals env (tokenAddress c) = Returns d"
    and h3: "amountWei (mathPow10 env) (amount c) d = Inr w"
    by simp_all
  show "TransferCall (recipient c) w \<in> set (fst (transfer env c))"
    by (rule transfer_present_run(1) [OF p h1 h2 h3])
  fix call assume tc: "transferCall env (tokenAddress c) (recipient c) w = Inr call"
  show "transfer env c =
      ([GetAccount, Decimals (tokenAddress c), TransferCall (recipient c) w, Execute call],
       execute env call)"
    by (rule transfer_present_run(2) [OF p h1 h2 h3 tc])
next
  fix n assume r: "ResolveName n \<in> set (fst (transfer env c))"
  show "nullish (recipient c)"
    using transfer_resolve_only_absent [OF r] by simp
  show "n = starkName c"
    using transfer_resolve_only_absent [OF r] by simp
next
  assume h: "nullish (recipient c) \<and> getStarknetAccount env = Inr ()
      \<and> decimals env (tokenAddress c) = Returns d
      \<and> amountWei (mathPow10 env) (amount c) d = Inr w"
  then have h0: "nullish (recipient c)" and h1: "getStarknetAccount env = Inr ()"
    and h2: "decimals env (tokenAddress c) = Returns d"
    and h3: "amountWei (mathPow10 env) (amount c) d = Inr w"
    by simp_all
  show "ResolveName (starkName c) \<in> set (fst (transfer env c))"
    by (rule transfer_absent_run(1) [OF h0 h1 h2 h3])
  fix a assume a: "getAddressFromName env (starkName c) = Returns a"
  show "TransferCall a w \<in> set (fst (transfer env c))"
    by (rule transfer_absent_run(2) [OF h0 h1 h2 h3 a])
  fix call assume tc: "transferCall env (tokenAddress c) a w = Inr call"
  show "transfer env c =
      ([GetAccount, Decimals (tokenAddress c), ResolveName (starkName c),
        TransferCall a w, Execute call], execute env call)"
    by (rule transfer_absent_run(3) [OF h0 h1 h2 h3 a tc])
qed

lemma amountWei_small:
  "amountWei engine (JNum (Fin 1)) 0 = Inr 1"
  "amountWei engine (JNum (Fin 2)) 0 = Inr 2"
  by code_simp+

theorem C5_recipient_resolution_witness:
  "isTransferContent isStarkDomain_spec both_given = Inr True
   \<and> \<not> nullish (recipient both_given)
   \<and> ResolveName (starkName both_given) \<notin> set (fst (transfer (example_env [] 0) both_given))
   \<and> transfer (example_env [] 0) both_given =
       ([GetAccount, Decimals (JStr strk), TransferCall (JStr alice) 1,
         Execute (JStr strk, JStr alice, 1)], Returns ''0x1'')
   \<and> isTransferContent isStarkDomain_spec named_content = Inr True
   \<and> nullish (recipient named_content)
   \<and> transfer (example_env [] 0) named_content =
       ([GetAccount, Decimals (JStr strk), ResolveName (JStr ''alice.stark''),
         TransferCall (JStr alice) 2, Execute (JStr strk, JStr alice, 2)], Returns ''0x1'')"
proof -
  let ?env = "example_env [] 0"
  have v1: "isTransferContent isStarkDomain_spec both_given = Inr True"
    by (simp add: isTransferContent_def both_given_def validAddress_strk validAddress_alice
        alice_not_empty)
  have p1: "\<not> nullish (recipient both_given)" and r1: "recipient both_given = JStr alice"
    and t1: "tokenAddress both_given = JStr strk"
    by (simp_all add: both_given_def)
  have v2: "isTransferContent isStarkDomain_spec named_content = Inr True"
    by (simp add: isTransferContent_def named_content_def validAddress_strk is_label_char_def)
  have p2: "nullish (recipient named_content)"
    and s2: "starkName named_content = JStr ''alice.stark''"
    and t2: "tokenAddress named_content = JStr strk"
    by (simp_all add: named_content_def)
  have e: "getStarknetAccount ?env = Inr ()" "decimals ?env t = Returns 0"
    "mathPow10 ?env = nearest_pow10"
    "getAddressFromName ?env n = Returns (JStr alice)"
    "transferCall ?env t r a = Inr (t, r, a)" "execute ?env call = Returns ''0x1''"
    for t n r a call
    by (simp_all add: example_env_def)
  have w1: "amountWei (mathPow10 ?env) (amount both_given) 0 = Inr 1"
    using amountWei_small(1) by (simp add: both_given_def)
  have w2: "amountWei (mathPow10 ?env) (amount named_content) 0 = Inr 2"
    using amountWei_small(2) by (simp add: named_content_def)
  have h1: "getStarknetAccount ?env = Inr ()
      \<and> decimals ?env (tokenAddress both_given) = Returns 0
      \<and> amountWei (mathPow10 ?env) (amount both_given) 0 = Inr 1"
    using e(1,2) w1 by simp
  have h2: "nullish (recipient named_content) \<and> getStarknetAccount ?env = Inr ()
      \<and> decimals ?env (tokenAddress named_content) = Returns 0
      \<and> amountWei (mathPow10 ?env) (amount named_content) 0 = Inr 2"
    using p2 e(1,2) w2 by simp
  note present = C5_recipient_resolution [OF v1, of ?env 0 1, THEN conjunct1, THEN mp, OF p1]
  note absent = C5_recipient_resolution [OF v2, of ?env 0 2, THEN conjunct2, THEN conjunct2,
      THEN mp, OF h2]
  have a1: "ResolveName (starkName both_given) \<notin> set (fst (transfer ?env both_given))"
    by (rule present [THEN conjunct1, THEN spec])
  have b1: "transfer ?env both_given =
       ([GetAccount, Decimals (tokenAddress both_given), TransferCall (recipient both_given) 1,
         Execute (tokenAddress both_given, recipient both_given, 1)],
        execute ?env (tokenAddress both_given, recipient both_given, 1))"
    by (rule present [THEN conjunct2, THEN conjunct2, THEN mp, OF h1, THEN conjunct2,
          THEN spec, THEN mp]) (rule e(5))
  have b2: "transfer ?env named_content =
       ([GetAccount, Decimals (tokenAddress named_content),
         ResolveName (starkName named_content), TransferCall (JStr alice) 2,
         Execute (tokenAddress named_content, JStr alice, 2)],
        execute ?env (tokenAddress named_content, JStr alice, 2))"
    by (rule absent [THEN conjunct2, THEN spec, THEN mp, OF e(4), THEN conjunct2,
          THEN spec, THEN mp]) (rule e(5))
  from v1 p1 a1 v2 p2 show ?thesis
    by (simp add: b1 b2 r1 t1 s2 t2 e(6))
qed

lemma BigInt_non_finite:
  "BigInt (Number_toString NaN) = Inl SyntaxError"
  "BigInt (Number_toString PInf) = Inl SyntaxError"
  "BigInt (Number_toString NInf) = Inl SyntaxError"
  by code_simp+

lemma amountWei_non_finite:
  assumes "amountInteger engine a d = NaN \<or> amountInteger engine a d = PInf
    \<or> amountInteger engine a d = NInf"
  shows "amountWei engine a d = Inl SyntaxError"
  using assms BigInt_non_finite by (auto simp: amountWei_def)

lemma transfer_conversion_fails:
  assumes "decimals env (tokenAddress c) = Returns d"
    and "amountWei (mathPow10 env) (amount c) d = Inl e"
  shows "\<exists>e'. snd (transfer env c) = Throws e'"
    and "TransferCall r a \<notin> set (fst (transfer env c))"
    and "Execute call \<notin> set (fst (transfer env c))"
    and "getStarknetAccount env = Inr () \<Longrightarrow>
           transfer env c = ([GetAccount, Decimals (tokenAddress c)], Throws e)"
proof -
  show "\<exists>e'. snd (transfer env c) = Throws e'"
    using assms by (cases "getStarknetAccount env") (simp_all add: io_defs)
  show "TransferCall r a \<notin> set (fst (transfer env c))"
    using assms by (auto simp: transfer_def in_bind_io call_io_def pure_io_def of_sum_def)
  show "Execute call \<notin> set (fst (transfer env c))"
    using assms by (auto simp: transfer_def in_bind_io call_io_def pure_io_def of_sum_def)
  show "transfer env c = ([GetAccount, Decimals (tokenAddress c)], Throws e)"
    if "getStarknetAccount env = Inr ()"
    using assms that by (simp add: io_defs)
qed

lemma validate_and_transfer_caught:
  assumes "isTransferContent (isStarkDomain env) c = Inr True"
    and "snd (transfer env c) = Throws e"
  shows "validate_and_transfer env c =
           (fst (transfer env c) @ callback env (TransferFailed e), Returns False)"
  using assms by (cases "transfer env c") (simp add: validate_and_transfer_def)

lemma negative_wei: "amountWei engine (JNum (Fin (- 1))) 18 = Inr (- 1000000000000000000)"
  by code_simp

lemma negative_amount_reaches_transferCall:
  assumes "getStarknetAccount env = Inr ()" and "decimals env (JStr strk) = Returns 18"
  shows "TransferCall (JStr alice) (- 1000000000000000000)
           \<in> set (fst (transfer env negative_amount))"
proof -
  have "TransferCall (recipient negative_amount) (- 1000000000000000000)
      \<in> set (fst (transfer env negative_amount))"
    using assms negative_wei [of "mathPow10 env"]
    by (intro transfer_present_run(1) [where d = 18]) (simp_all add: negative_amount_def)
  then show ?thesis
    by (simp add: negative_amount_def)
qed

text \<open>
  C6, as stated, fails: the conversion does not fail on a negative amount. The amount
  \<^verbatim>\<open>-1\<close> with 18 decimals is converted to the integer \<open>- 10 ^ 18\<close>, and the recipient and
  this amount are handed to \<^verbatim>\<open>transferCall\<close>, whatever the collaborators do (lemma
  \<open>negative_amount_reaches_transferCall\<close>); here \<^verbatim>\<open>transferCall\<close> is one that refuses
  it, and the error of the transfer step is that refusal, not an error of the conversion.
  There is no cap on the amount anywhere.
\<close>

theorem C6_negative_amount_converted:
  "amountInteger nearest_pow10 (amount negative_amount) 18 = Fin (- 1000000000000000000)
   \<and> amountWei nearest_pow10 (amount negative_amount) 18 = Inr (- 1000000000000000000)
   \<and> transfer strict_env negative_amount =
       ([GetAccount, Decimals (JStr strk), TransferCall (JStr alice) (- 1000000000000000000)],
        Throws (Thrown ''negative amount''))"
  by code_simp

text \<open>
  C6, amended. Whenever the computed minor-unit amount is not finite (NaN or an
  infinity), \<^verbatim>\<open>BigInt\<close> throws a SyntaxError: the transfer step ends with an error, no
  transfer call is built and nothing is submitted. For a content that validation accepted
  the \<^verbatim>\<open>catch\<close> of the handler reports the error of the transfer step through the
  callback, if one was passed, and the result is false; with the account at hand that
  error is the SyntaxError, after the calls for the account and the decimals and no other.
\<close>

theorem C6_non_finite_amount_fails:
  assumes "decimals env (tokenAddress c) = Returns d"
    and "amountInteger (mathPow10 env) (amount c) d = NaN
         \<or> amountInteger (mathPow10 env) (amount c) d = PInf
         \<or> amountInteger (mathPow10 env) (amount c) d = NInf"
  shows "amountWei (mathPow10 env) (amount c) d = Inl SyntaxError
       \<and> (\<exists>e. snd (transfer env c) = Throws e)
       \<and> (\<forall>r a. TransferCall r a \<notin> set (fst (transfer env c)))
       \<and> (\<forall>call. Execute call \<notin> set (fst (transfer env c)))
       \<and> (getStarknetAccount env = Inr () \<longrightarrow>
            transfer env c = ([GetAccount, Decimals (tokenAddress c)], Throws SyntaxError))
       \<and> (isTransferContent (isStarkDomain env) c = Inr True \<longrightarrow>
            (\<exists>e. snd (transfer env c) = Throws e
               \<and> validate_and_transfer env c =
                   (fst (transfer env c) @ callback env (TransferFailed e), Returns False))
          \<and> (getStarknetAccount env = Inr () \<longrightarrow>
                validate_and_transfer env c =
                  ([GetAccount, Decimals (tokenAddress c)]
                     @ (if hasCallback env then [Callback (TransferFailed SyntaxError)] else []),
                   Returns False)))"
proof -
  have w: "amountWei (mathPow10 env) (amount c) d = Inl SyntaxError"
    using assms(2) by (rule amountWei_non_finite)
  note f = transfer_conversion_fails [OF assms(1) w]
  obtain e where e: "snd (transfer env c) = Throws e"
    using f(1) by blast
  have t: "transfer env c = ([GetAccount, Decimals (tokenAddress c)], Throws SyntaxError)"
    if "getStarknetAccount env = Inr ()"
    using f(4) [OF that] .
  have v1: "\<exists>e. snd (transfer env c) = Throws e
      \<and> validate_and_transfer env c =
          (fst (transfer env c) @ callback env (TransferFailed e), Returns False)"
    if "isTransferContent (isStarkDomain env) c = Inr True"
    using validate_and_transfer_caught [OF that e] e by blast
  have v2: "validate_and_transfer env c =
      ([GetAccount, Decimals (tokenAddress c)]
         @ (if hasCallback env then [Callback (TransferFailed SyntaxError)] else []),
       Returns False)"
    if "isTransferContent (isStarkDomain env) c = Inr True" and "getStarknetAccount env = Inr ()"
    using validate_and_transfer_caught [OF that(1), of SyntaxError] t [OF that(2)]
    by (simp add: callback_def)
  from w e f(2,3) t v1 v2 show ?thesis
    by (intro conjI impI allI) blast+
qed

lemma nan_amount_integer: "amountInteger engine (JStr ''one'') 18 = NaN"
  by code_simp

theorem C6_non_finite_amount_fails_witness:
  "decimals (example_env [] 18) (tokenAddress nan_amount) = Returns 18
   \<and> amountInteger (mathPow10 (example_env [] 18)) (amount nan_amount) 18 = NaN
   \<and> amountWei (mathPow10 (example_env [] 18)) (amount nan_amount) 18 = Inl SyntaxError
   \<and> getStarknetAccount (example_env [] 18) = Inr ()
   \<and> isTransferContent (isStarkDomain (example_env [] 18)) nan_amount = Inr True
   \<and> validate_and_transfer (example_env [] 18) nan_amount =
       ([GetAccount, Decimals (JStr strk), Callback (TransferFailed SyntaxError)],
        Returns False)"
proof -
  let ?env = "example_env [] 18"
  have d: "decimals ?env (tokenAddress nan_amount) = Returns 18"
    and g: "getStarknetAccount ?env = Inr ()" and cb: "hasCallback ?env"
    and t: "tokenAddress nan_amount = JStr strk"
    by (simp_all add: example_env_def nan_amount_def)
  have n: "amountInteger (mathPow10 ?env) (amount nan_amount) 18 = NaN"
    using nan_amount_integer by (simp add: nan_amount_def)
  then have n': "amountInteger (mathPow10 ?env) (amount nan_amount) 18 = NaN
      \<or> amountInteger (mathPow10 ?env) (amount nan_amount) 18 = PInf
      \<or> amountInteger (mathPow10 ?env) (amount nan_amount) 18 = NInf" ..
  have v: "isTransferContent (isStarkDomain ?env) nan_amount = Inr True"
    by (simp add: isTransferContent_def nan_amount_def example_env_def validAddress_strk
        validAddress_alice alice_not_empty)
  note r = C6_non_finite_amount_fails [OF d n']
  have w: "amountWei (mathPow10 ?env) (amount nan_amount) 18 = Inl SyntaxError"
    by (rule r [THEN conjunct1])
  have "validate_and_transfer ?env nan_amount =
      ([GetAccount, Decimals (tokenAddress nan_amount)]
         @ (if hasCallback ?env then [Callback (TransferFailed SyntaxError)] else []),
       Returns False)"
    by (rule r [THEN conjunct2, THEN conjunct2, THEN conjunct2, THEN conjunct2, THEN conjunct2,
          THEN mp, OF v, THEN conjunct2, THEN mp, OF g])
  with d n w g v show ?thesis
    by (simp add: cb t)
qed

section \<open>The address in the recent messages\<close>

lemma is_hex_iff:
  "is_hex ch \<longleftrightarrow>
     (48 \<le> char_code ch \<and> char_code ch \<le> 57) \<or> (97 \<le> char_code ch \<and> char_code ch \<le> 102)
     \<or> (65 \<le> char_code ch \<and> char_code ch \<le> 70)"
  by (auto simp: is_hex_def is_radix_digit_def digit_value_def Let_def)

lemma matches_here_iff:
  "matches_here s \<longleftrightarrow> (\<exists>h v. s = ''0x'' @ h @ v \<and> length h = 64 \<and> list_all is_hex h)"
proof
  assume m: "matches_here s"
  then have p: "take 2 s = ''0x''" and l: "length (take 64 (drop 2 s)) = 64"
    and x: "list_all is_hex (take 64 (drop 2 s))"
    by (simp_all add: matches_here_def startsWith_def numeral_2_eq_2)
  have "s = take 2 s @ take 64 (drop 2 s) @ drop 64 (drop 2 s)"
    by (simp only: append_take_drop_id)
  with p have "s = ''0x'' @ take 64 (drop 2 s) @ drop 64 (drop 2 s)"
    by simp
  with l x show "\<exists>h v. s = ''0x'' @ h @ v \<and> length h = 64 \<and> list_all is_hex h"
    by blast
next
  assume "\<exists>h v. s = ''0x'' @ h @ v \<and> length h = 64 \<and> list_all is_hex h"
  then obtain h v where s: "s = ''0x'' @ h @ v" and l: "length h = 64" and x: "list_all is_hex h"
    by blast
  show "matches_here s"
    using l x by (simp add: s matches_here_def startsWith_def)
qed

lemma has_address_Cons:
  "has_address (ch # s) \<longleftrightarrow> matches_here (ch # s) \<or> has_address s"
proof
  assume "has_address (ch # s)"
  then obtain u h v where e: "ch # s = u @ ''0x'' @ h @ v" and l: "length h = 64"
    and x: "list_all is_hex h"
    unfolding has_address_def by blast
  show "matches_here (ch # s) \<or> has_address s"
  proof (cases u)
    case Nil
    with e l x show ?thesis by (auto simp: matches_here_iff)
  next
    case (Cons a u')
    with e have "s = u' @ ''0x'' @ h @ v" by simp
    with l x show ?thesis unfolding has_address_def by blast
  qed
next
  assume "matches_here (ch # s) \<or> has_address s"
  then show "has_address (ch # s)"
  proof
    assume "matches_here (ch # s)"
    then obtain h v where "ch # s = [] @ ''0x'' @ h @ v" "length h = 64" "list_all is_hex h"
      by (auto simp: matches_here_iff)
    then show ?thesis unfolding has_address_def by blast
  next
    assume "has_address s"
    then obtain u h v where "s = u @ ''0x'' @ h @ v" "length h = 64" "list_all is_hex h"
      unfolding has_address_def by blast
    then have "ch # s = (ch # u) @ ''0x'' @ h @ v" "length h = 64" "list_all is_hex h"
      by simp_all
    then show ?thesis unfolding has_address_def by blast
  qed
qed

lemma match_address_None_iff: "match_address s = None \<longleftrightarrow> \<not> has_address s"
proof (induction s)
  case Nil
  show ?case by (simp add: has_address_def)
next
  case (Cons ch s)
  then show ?case by (simp add: has_address_Cons)
qed

lemma match_address_first:
  assumes "s = u @ ''0x'' @ h @ v" and "length h = 64" and "list_all is_hex h"
    and "\<forall>u' h' v'. s = u' @ ''0x'' @ h' @ v' \<and> length h' = 64 \<and> list_all is_hex h'
           \<longrightarrow> length u \<le> length u'"
  shows "match_address s = Some (''0x'' @ h)"
  using assms
proof (induction u arbitrary: s)
  case Nil
  then have "matches_here s" by (auto simp: matches_here_iff)
  with Nil show ?case by simp
next
  case (Cons a u)
  let ?t = "u @ ''0x'' @ h @ v"
  have s: "s = a # ?t" using Cons.prems(1) by simp
  have nm: "\<not> matches_here s"
  proof
    assume "matches_here s"
    then obtain h' v' where "s = [] @ ''0x'' @ h' @ v'" "length h' = 64" "list_all is_hex h'"
      by (auto simp: matches_here_iff)
    with Cons.prems(4) have "length (a # u) \<le> length ([]::string)" by blast
    then show False by simp
  qed
  have min: "\<forall>u' h' v'. ?t = u' @ ''0x'' @ h' @ v' \<and> length h' = 64 \<and> list_all is_hex h'
           \<longrightarrow> length u \<le> length u'"
  proof (intro allI impI)
    fix u' h' v'
    assume a: "?t = u' @ ''0x'' @ h' @ v' \<and> length h' = 64 \<and> list_all is_hex h'"
    then have "s = (a # u') @ ''0x'' @ h' @ v'" using s by simp
    with a Cons.prems(4) have "length (a # u) \<le> length (a # u')" by blast
    then show "length u \<le> length u'" by simp
  qed
  have "match_address ?t = Some (''0x'' @ h)"
    using Cons.IH [OF refl Cons.prems(2,3) min] .
  with nm s show ?case by simp
qed

lemma compose_and_generate_returns:
  assumes "stateUpdate env = Returns (JStr s)" and "composeContext env = Inr ctx"
    and "generateObjectDeprecated env = Returns (Some g)"
  shows "fst (compose_and_generate env k) =
           [UpdateState, ComposeContext, GenerateObject]
             @ fst (k (match_address s) (g\<lparr>tokenAddress := STRK env\<rparr>))"
    and "snd (compose_and_generate env k) = snd (k (match_address s) (g\<lparr>tokenAddress := STRK env\<rparr>))"
  using assms
  by (simp_all add: compose_and_generate_def bind_io_def call_io_def pure_io_def of_sum_def
      split: prod.splits)

lemma compose_and_generate_events:
  assumes "stateUpdate env = Returns (JStr s)"
    and "ev \<in> set (fst (compose_and_generate env k))"
  shows "ev \<in> {UpdateState, ComposeContext, GenerateObject}
       \<or> (\<exists>g. ev \<in> set (fst (k (match_address s) (g\<lparr>tokenAddress := STRK env\<rparr>))))"
  using assms
  by (auto simp: compose_and_generate_def in_bind_io call_io_def pure_io_def of_sum_def
      split: option.splits)

lemma compose_and_generate_result:
  assumes "stateUpdate env = Returns (JStr s)"
    and "snd (compose_and_generate env k) = Returns b"
  shows "\<exists>g. snd (k (match_address s) (g\<lparr>tokenAddress := STRK env\<rparr>)) = Returns b"
proof (cases "composeContext env")
  case (Inl e)
  with assms show ?thesis
    by (simp add: compose_and_generate_def bind_io_def call_io_def pure_io_def of_sum_def)
next
  case (Inr ctx)
  show ?thesis
  proof (cases "generateObjectDeprecated env")
    case (Returns generated)
    show ?thesis
    proof (cases generated)
      case None
      with assms Inr Returns show ?thesis
        by (simp add: compose_and_generate_def bind_io_def call_io_def pure_io_def of_sum_def)
    next
      case (Some g)
      with assms(2) Returns
        compose_and_generate_returns(2) [OF assms(1) Inr, of g k]
      have "snd (k (match_address s) (g\<lparr>tokenAddress := STRK env\<rparr>)) = Returns b"
        by simp
      then show ?thesis ..
    qed
  next
    case (Throws e)
    with assms Inr show ?thesis
      by (simp add: compose_and_generate_def bind_io_def call_io_def pure_io_def of_sum_def)
  next
    case Never
    with assms Inr show ?thesis
      by (simp add: compose_and_generate_def bind_io_def call_io_def pure_io_def of_sum_def)
  qed
qed

lemma compose_and_generate_no_address:
  assumes "stateUpdate env = Returns (JStr s)" and "match_address s = None"
    and "\<And>c. k None c = pure_io (Returns False)"
  shows "Execute call \<notin> set (fst (compose_and_generate env k))"
    and "TransferCall r a \<notin> set (fst (compose_and_generate env k))"
    and "snd (compose_and_generate env k) \<noteq> Returns True"
proof -
  show "Execute call \<notin> set (fst (compose_and_generate env k))"
    using compose_and_generate_events [OF assms(1), of "Execute call" k] assms(2,3)
    by (auto simp: pure_io_def)
  show "TransferCall r a \<notin> set (fst (compose_and_generate env k))"
    using compose_and_generate_events [OF assms(1), of "TransferCall r a" k] assms(2,3)
    by (auto simp: pure_io_def)
  show "snd (compose_and_generate env k) \<noteq> Returns True"
    using compose_and_generate_result [OF assms(1), of k True] assms(2,3)
    by (auto simp: pure_io_def)
qed

lemma handler_no_address:
  assumes "stateUpdate env = Returns (JStr s)" and "match_address s = None"
  shows "Execute call \<notin> set (fst (handler env))"
    and "TransferCall r a \<notin> set (fst (handler env))"
    and "snd (handler env) \<noteq> Returns True"
    and "Execute call \<notin> set (fst (handler_part_000 env))"
    and "TransferCall r a \<notin> set (fst (handler_part_000 env))"
    and "snd (handler_part_000 env) \<noteq> Returns True"
  unfolding handler_def handler_part_000_def
  by (rule compose_and_generate_no_address [OF assms], simp)+

text \<open>
  C9, as stated, fails: the test for an address comes after the language-model call and
  the assignment of the token address, both outside the \<^verbatim>\<open>try\<close>. When the language model
  yields \<^verbatim>\<open>null\<close>, the assignment throws a TypeError, and the handler (in both source
  files) is left by that error instead of returning false, although the recent messages
  contain no address.
\<close>

theorem C9_handler_throws_on_null_content:
  "match_address ''Happy New Year!'' = None
   \<and> handler null_content_env = ([UpdateState, ComposeContext, GenerateObject], Throws TypeError)
   \<and> handler_part_000 null_content_env =
       ([UpdateState, ComposeContext, GenerateObject], Throws TypeError)"
  by (simp add: null_content_env_def example_env_def handler_def handler_part_000_def
      compose_and_generate_def bind_io_def call_io_def pure_io_def of_sum_def
      matches_here_def startsWith_def)

text \<open>
  C9, amended. Let the state update return recent messages that are a string. If they
  contain no \<^verbatim>\<open>0x\<close> followed by 64 hexadecimal digits, the handler (in both source files)
  never submits a transfer and does not return true, and if the context composition and
  the language-model call return, the latter with an object, it returns false right after
  these calls. If they contain one and those calls return, the content that is validated
  (in the second file: recorded, then validated) has the leftmost such match as its
  \<^verbatim>\<open>recipient\<close>, whatever the language model extracted.
\<close>

theorem C9_recipient_from_recent_messages:
  assumes "stateUpdate env = Returns (JStr s)"
  shows "(\<not> (\<exists>u h v. s = u @ ''0x'' @ h @ v \<and> length h = 64 \<and> list_all is_hex h) \<longrightarrow>
            (\<forall>call. Execute call \<notin> set (fst (handler env)))
          \<and> (\<forall>call. Execute call \<notin> set (fst (handler_part_000 env)))
          \<and> snd (handler env) \<noteq> Returns True
          \<and> snd (handler_part_000 env) \<noteq> Returns True
          \<and> (composeContext env = Inr ctx
               \<and> generateObjectDeprecated env = Returns (Some g) \<longrightarrow>
                handler env = ([UpdateState, ComposeContext, GenerateObject], Returns False)
              \<and> handler_part_000 env =
                  ([UpdateState, ComposeContext, GenerateObject], Returns False)))
       \<and> (s = u @ ''0x'' @ h @ v \<and> length h = 64 \<and> list_all is_hex h
           \<and> (\<forall>u' h' v'. s = u' @ ''0x'' @ h' @ v' \<and> length h' = 64 \<and> list_all is_hex h'
                  \<longrightarrow> length u \<le> length u')
           \<and> composeContext env = Inr ctx
           \<and> generateObjectDeprecated env = Returns (Some g) \<longrightarrow>
            (\<exists>c. recipient c = JStr (''0x'' @ h)
               \<and> c = g\<lparr>tokenAddress := STRK env, recipient := JStr (''0x'' @ h),
                        amount := JNum (randomAmount env)\<rparr>
               \<and> fst (handler env) =
                   [UpdateState, ComposeContext, GenerateObject]
                     @ fst (validate_and_transfer env c)
               \<and> snd (handler env) = snd (validate_and_transfer env c))
          \<and> (\<exists>c. recipient c = JStr (''0x'' @ h)
               \<and> c = (if \<not> truthy (amount g)
                       then g\<lparr>tokenAddress := STRK env, recipient := JStr (''0x'' @ h),
                              amount := JNum (randomAmount env)\<rparr>
                       else g\<lparr>tokenAddress := STRK env, recipient := JStr (''0x'' @ h)\<rparr>)
               \<and> fst (handler_part_000 env) =
                   [UpdateState, ComposeContext, GenerateObject]
                     @ fst (record_and_transfer env c)
               \<and> snd (handler_part_000 env) = snd (record_and_transfer env c)))"
proof (intro conjI impI)
  assume "\<not> (\<exists>u h v. s = u @ ''0x'' @ h @ v \<and> length h = 64 \<and> list_all is_hex h)"
  then have n: "match_address s = None"
    by (simp add: match_address_None_iff has_address_def)
  note h = handler_no_address [OF assms n]
  show "\<forall>call. Execute call \<notin> set (fst (handler env))"
    using h(1) by blast
  show "\<forall>call. Execute call \<notin> set (fst (handler_part_000 env))"
    using h(4) by blast
  show "snd (handler env) \<noteq> Returns True"
    by (rule h(3))
  show "snd (handler_part_000 env) \<noteq> Returns True"
    by (rule h(6))
  assume r: "composeContext env = Inr ctx \<and> generateObjectDeprecated env = Returns (Some g)"
  note cg = compose_and_generate_returns [OF assms r [THEN conjunct1] r [THEN conjunct2]]
  show "handler env = ([UpdateState, ComposeContext, GenerateObject], Returns False)"
    using cg [of "\<lambda>recipient c. case recipient of None \<Rightarrow> pure_io (Returns False)
        | Some r \<Rightarrow> validate_and_transfer env
            (c\<lparr>recipient := JStr r, amount := JNum (randomAmount env)\<rparr>)"] n
    by (simp add: handler_def pure_io_def prod_eq_iff)
  show "handler_part_000 env = ([UpdateState, ComposeContext, GenerateObject], Returns False)"
    using cg [of "\<lambda>recipient c. case recipient of None \<Rightarrow> pure_io (Returns False)
        | Some r \<Rightarrow> (let c1 = c\<lparr>recipient := JStr r\<rparr>
            in record_and_transfer env
                 (if \<not> truthy (amount c1) then c1\<lparr>amount := JNum (randomAmount env)\<rparr>
                  else c1))"] n
    by (simp add: handler_part_000_def pure_io_def prod_eq_iff)
next
  assume a: "s = u @ ''0x'' @ h @ v \<and> length h = 64 \<and> list_all is_hex h
       \<and> (\<forall>u' h' v'. s = u' @ ''0x'' @ h' @ v' \<and> length h' = 64 \<and> list_all is_hex h'
              \<longrightarrow> length u \<le> length u')
       \<and> composeContext env = Inr ctx
       \<and> generateObjectDeprecated env = Returns (Some g)"
  then have m: "match_address s = Some (''0x'' @ h)"
    by (intro match_address_first [of _ u h v]) blast+
  from a have r1: "composeContext env = Inr ctx"
    and r2: "generateObjectDeprecated env = Returns (Some g)"
    by simp_all
  note cg = compose_and_generate_returns [OF assms r1 r2]
  show "\<exists>c. recipient c = JStr (''0x'' @ h)
      \<and> c = g\<lparr>tokenAddress := STRK env, recipient := JStr (''0x'' @ h),
               amount := JNum (randomAmount env)\<rparr>
      \<and> fst (handler env) =
          [UpdateState, ComposeContext, GenerateObject] @ fst (validate_and_transfer env c)
      \<and> snd (handler env) = snd (validate_and_transfer env c)"
    using cg [of "\<lambda>recipient c. case recipient of None \<Rightarrow> pure_io (Returns False)
        | Some r \<Rightarrow> validate_and_transfer env
            (c\<lparr>recipient := JStr r, amount := JNum (randomAmount env)\<rparr>)"] m
    by (simp add: handler_def)
  show "\<exists>c. recipient c = JStr (''0x'' @ h)
      \<and> c = (if \<not> truthy (amount g)
              then g\<lparr>tokenAddress := STRK env, recipient := JStr (''0x'' @ h),
                     amount := JNum (randomAmount env)\<rparr>
              else g\<lparr>tokenAddress := STRK env, recipient := JStr (''0x'' @ h)\<rparr>)
      \<and> fst (handler_part_000 env) =
          [UpdateState, ComposeContext, GenerateObject] @ fst (record_and_transfer env c)
      \<and> snd (handler_part_000 env) = snd (record_and_transfer env c)"
    using cg [of "\<lambda>recipient c. case recipient of None \<Rightarrow> pure_io (Returns False)
        | Some r \<Rightarrow> (let c1 = c\<lparr>recipient := JStr r\<rparr>
            in record_and_transfer env
                 (if \<not> truthy (amount c1) then c1\<lparr>amount := JNum (randomAmount env)\<rparr>
                  else c1))"] m
    by (simp add: handler_part_000_def Let_def)
qed

lemma no_address_example: "match_address ''Happy New Year!'' = None"
  by (simp add: matches_here_def startsWith_def)

lemma list_all_is_hex_alice: "list_all is_hex (drop 2 alice)"
  by (simp add: alice_def is_hex_def is_radix_digit_def digit_value_def char_code_def)

theorem C9_recipient_from_recent_messages_witness:
  "stateUpdate (example_env ''Happy New Year!'' 18) = Returns (JStr ''Happy New Year!'')
   \<and> handler (example_env ''Happy New Year!'' 18) =
       ([UpdateState, ComposeContext, GenerateObject], Returns False)
   \<and> handler_part_000 (example_env ''Happy New Year!'' 18) =
       ([UpdateState, ComposeContext, GenerateObject], Returns False)
   \<and> stateUpdate (example_env (alice @ '' Happy New Year!'') 18) =
       Returns (JStr (alice @ '' Happy New Year!''))
   \<and> fst (handler (example_env (alice @ '' Happy New Year!'') 18)) =
       [UpdateState, ComposeContext, GenerateObject]
         @ fst (validate_and_transfer (example_env (alice @ '' Happy New Year!'') 18)
                 (generated_content\<lparr>tokenAddress := JStr strk, recipient := JStr alice,
                    amount := JNum (StringToNumber ''1.001'')\<rparr>))
   \<and> fst (handler_part_000 (example_env (alice @ '' Happy New Year!'') 18)) =
       [UpdateState, ComposeContext, GenerateObject]
         @ fst (record_and_transfer (example_env (alice @ '' Happy New Year!'') 18)
                 (generated_content\<lparr>tokenAddress := JStr strk, recipient := JStr alice\<rparr>))"
proof -
  let ?e0 = "example_env ''Happy New Year!'' 18"
  let ?m = "alice @ '' Happy New Year!''"
  let ?e1 = "example_env ?m 18"
  have su0: "stateUpdate ?e0 = Returns (JStr ''Happy New Year!'')"
    and su1: "stateUpdate ?e1 = Returns (JStr ?m)"
    by (simp_all add: example_env_def)
  have r: "composeContext (example_env msgs 18) = Inr ''context''
      \<and> generateObjectDeprecated (example_env msgs 18) = Returns (Some generated_content)"
    and k: "STRK (example_env msgs 18) = JStr strk"
      "randomAmount (example_env msgs 18) = StringToNumber ''1.001''"
    for msgs
    by (simp_all add: example_env_def)
  have nh: "\<not> has_address ''Happy New Year!''"
    using no_address_example match_address_None_iff by blast
  then have h0: "\<not> (\<exists>u h v. ''Happy New Year!'' = u @ ''0x'' @ h @ v \<and> length h = 64
      \<and> list_all is_hex h)"
    by (simp add: has_address_def)
  have a: "alice = ''0x'' @ drop 2 alice" by (simp add: alice_def)
  have m: "?m = [] @ ''0x'' @ drop 2 alice @ '' Happy New Year!''"
    using a by simp
  have l: "length (drop 2 alice) = 64" by (simp add: alice_def)
  have first: "\<forall>u' h' v'. ?m = u' @ ''0x'' @ h' @ v' \<and> length h' = 64
      \<and> list_all is_hex h' \<longrightarrow> length ([]::string) \<le> length u'"
    by simp
  have t: "truthy (amount generated_content)"
    by (simp add: generated_content_def)
  note r0 = C9_recipient_from_recent_messages [OF su0, THEN conjunct1, THEN mp, OF h0,
      THEN conjunct2, THEN conjunct2, THEN conjunct2, THEN conjunct2, THEN mp, OF r]
  note r1 = C9_recipient_from_recent_messages [OF su1, where u = "[]" and h = "drop 2 alice"
      and v = "'' Happy New Year!''" and ctx = "''context''" and g = generated_content,
      THEN conjunct2, THEN mp]
  have hyp: "?m = [] @ ''0x'' @ drop 2 alice @ '' Happy New Year!'' \<and> length (drop 2 alice) = 64
      \<and> list_all is_hex (drop 2 alice)
      \<and> (\<forall>u' h' v'. ?m = u' @ ''0x'' @ h' @ v' \<and> length h' = 64
             \<and> list_all is_hex h' \<longrightarrow> length ([]::string) \<le> length u')
      \<and> composeContext ?e1 = Inr ''context''
      \<and> generateObjectDeprecated ?e1 = Returns (Some generated_content)"
    using m l list_all_is_hex_alice first r by blast
  from r1 [OF hyp] have
    "fst (handler ?e1) = [UpdateState, ComposeContext, GenerateObject]
         @ fst (validate_and_transfer ?e1
                 (generated_content\<lparr>tokenAddress := STRK ?e1,
                    recipient := JStr (''0x'' @ drop 2 alice),
                    amount := JNum (randomAmount ?e1)\<rparr>))"
    and "fst (handler_part_000 ?e1) = [UpdateState, ComposeContext, GenerateObject]
         @ fst (record_and_transfer ?e1
                 (generated_content\<lparr>tokenAddress := STRK ?e1,
                    recipient := JStr (''0x'' @ drop 2 alice)\<rparr>))"
    using t by simp_all
  with r0 su0 su1 show ?thesis
    using a by (simp add: k)
qed

section \<open>Rounding in the conversion\<close>

text \<open>
  The powers of ten up to \<open>10 ^ 22\<close> are doubles: rounding leaves them as they are.
\<close>

lemma pow10_is_double: "\<forall>d \<in> set [0 ..< 23]. nearest_pow10 d = Fin (10 ^ d)"
  by code_simp

text \<open>
  The specification's example \<^verbatim>\<open>"2.5"\<close> with 6 decimals is converted exactly.
\<close>

lemma amountWei_example: "amountWei engine (JStr ''2.5'') 6 = Inr 2500000"
  by code_simp

text \<open>
  A run of the handler: the address is found in the recent messages, the amount drawn is
  \<^verbatim>\<open>1.001\<close>, the token has 18 decimals, every collaborator answers. The transaction that
  is submitted moves 1000999999999999900 units, 100 less than \<^verbatim>\<open>1.001\<close> tokens.
\<close>

lemma handler_example_run:
  "handler (example_env (''Happy New Year! '' @ alice) 18) =
     ([UpdateState, ComposeContext, GenerateObject, GetAccount, Decimals (JStr strk),
       TransferCall (JStr alice) 1000999999999999900,
       Execute (JStr strk, JStr alice, 1000999999999999900),
       Callback (ThankYou (JNum (StringToNumber ''1.001'')))], Returns True)"
  by code_simp

text \<open>
  C1 fails on the code. The conversion multiplies two doubles: the random amount
  \<^verbatim>\<open>1.001\<close> with the 18 decimals of the STRK token gives 1000999999999999900 where the exact
  value is 1001000000000000000, and the specification's own example
  \<^verbatim>\<open>"1.234567890123456789"\<close> gives 1234567890123456800 instead of 1234567890123456789.
  With 18 decimals the power of ten is exact, so this holds for every engine.
\<close>

theorem C1_conversion_rounds:
  "amountWei engine (JNum (StringToNumber ''1.001'')) 18 = Inr 1000999999999999900
   \<and> exactMinorUnits (1001 / 1000) 18 = 1001000000000000000
   \<and> amountWei engine (JStr ''1.234567890123456789'') 18 = Inr 1234567890123456800
   \<and> exactMinorUnits (1234567890123456789 / 10 ^ 18) 18 = 1234567890123456789"
  by code_simp

text \<open>
  On the exact conversion of the specification the round trip does hold.
\<close>

lemma exactMinorUnits_round_trip:
  "exactMinorUnits (of_int (exactMinorUnits q d) / 10 ^ d) d = exactMinorUnits q d"
proof -
  have p: "(of_int m / 10 ^ d :: rat) * 10 ^ d = of_int m" for m :: int
    by simp
  have "(0::rat) < 10 ^ d"
    by simp
  then have n: "\<not> (10::rat) ^ d \<le> 0"
    by (simp only: not_le)
  have s: "0 \<le> (of_int m / 10 ^ d :: rat) \<longleftrightarrow> 0 \<le> m" for m :: int
    using n by (simp add: zero_le_divide_iff)
  show ?thesis
  proof (cases "0 \<le> q")
    case True
    then have "0 \<le> \<lfloor>q * 10 ^ d\<rfloor>" by simp
    with True show ?thesis
      by (simp add: exactMinorUnits_def p s)
  next
    case False
    then have "q * 10 ^ d \<le> 0"
      by (simp add: mult_nonpos_nonneg)
    then have "0 \<le> \<lfloor>- q * 10 ^ d\<rfloor>" by simp
    with False show ?thesis
      by (auto simp: exactMinorUnits_def p s)
  qed
qed

text \<open>
  C7 fails on the code for the same reason: \<^verbatim>\<open>"4.351"\<close> with 2 decimals is 435 minor units,
  435 divided by 100 is the Number \<^verbatim>\<open>4.35\<close>, and \<^verbatim>\<open>4.35\<close> is converted to 434. With
  18 decimals, \<^verbatim>\<open>"0.00397"\<close> is converted to 3969999999999999, and the amount that this
  integer gives back to 3969999999999998.
\<close>

theorem C7_round_trip_loses_a_unit:
  "amountWei engine (JStr ''4.351'') 2 = Inr 435
   \<and> minorUnitsToAmount 435 2 = JNum (StringToNumber ''4.35'')
   \<and> amountWei engine (minorUnitsToAmount 435 2) 2 = Inr 434
   \<and> amountWei engine (JStr ''0.00397'') 18 = Inr 3969999999999999
   \<and> minorUnitsToAmount 3969999999999999 18 = JNum (StringToNumber ''0.003969999999999999'')
   \<and> amountWei engine (minorUnitsToAmount 3969999999999999 18) 18 = Inr 3969999999999998"
  by code_simp

end
